theory Spec2Isabelle
  imports Complex_Main
begin

section \<open>Data model\<close>

text \<open>
  The ledger of the ERP back end, embedded from the Express controllers
  (\<^verbatim>\<open>journal.controller.ts\<close>, \<^verbatim>\<open>invoice.controller.ts\<close>, \<^verbatim>\<open>payment.controller.ts\<close>,
  \<^verbatim>\<open>report.controller.ts\<close>) and the schema \<^verbatim>\<open>schema/init.sql\<close>.

  Conventions of the embedding:
  \<^item> amounts (\<^verbatim>\<open>Decimal\<close> columns and the JavaScript \<^verbatim>\<open>Number\<close>s computed from them) are exact
    rationals, so \<^verbatim>\<open>Number(x)\<close> and \<^verbatim>\<open>new Decimal(x)\<close> are the identity, and the two-digit scale of
    the columns is not part of the model;
  \<^item> the one exception is the balance check of \<^verbatim>\<open>createJournalEntry\<close>, which adds, subtracts
    and compares the numbers of the request body: it is embedded in IEEE-754 double
    precision, rounding to nearest with ties to even;
  \<^item> an amount of a request body is the rational its JSON literal denotes, and the row that
    is created stores that amount;
  \<^item> the database is a record of tables, each table a list of rows in insertion order;
    a relation that Prisma loads with \<^verbatim>\<open>include\<close> is a filter on the other table (payments of an
    invoice) or a nested list (lines of a journal entry, items of an invoice);
  \<^item> row identifiers, which PostgreSQL draws with \<^verbatim>\<open>gen_random_uuid()\<close>, are natural numbers drawn
    from a counter kept in the database record;
  \<^item> a handler takes the database and returns its outcome together with the database it leaves
    behind: \<open>Inl\<close> an \<^verbatim>\<open>AppError\<close> that was thrown, \<open>Inr\<close> the body of the JSON response;
  \<^item> \<^verbatim>\<open>new Date()\<close> is an argument \<open>now\<close> of the handler, \<^verbatim>\<open>req.user!.id\<close> an argument \<open>uid\<close>;
  \<^item> foreign-key and uniqueness checks of the database engine are not modelled.
\<close>

type_synonym ident = nat

text \<open>A \<^verbatim>\<open>Date\<close>, read in one fixed time zone: year, month (from 0), day, milliseconds of the day.\<close>

record js_date =
  getFullYear :: nat
  getMonth :: nat
  getDate :: nat
  timeOfDay :: nat

datatype account_type = ASSET | LIABILITY | EQUITY | REVENUE | EXPENSE

datatype entry_status = DRAFT | PENDING | APPROVED | REJECTED

datatype invoice_type = RECEIVABLE | PAYABLE

datatype invoice_status = INV_DRAFT | SENT | PAID | PARTIAL | OVERDUE | CANCELLED

datatype cash_flow_type = INFLOW | OUTFLOW

record account =
  acc_id :: ident
  code :: string
  name :: string
  acc_type :: account_type
  balance :: rat
  acc_currency :: string
  isActive :: bool

record journal_line =
  accountId :: ident
  debit :: rat
  credit :: rat
  line_description :: "string option"

record journal_entry =
  je_id :: ident
  entryNumber :: string
  je_date :: js_date
  je_description :: string
  je_status :: entry_status
  createdById :: ident
  approvedAt :: "js_date option"
  lines :: "journal_line list"

record invoice_item =
  item_description :: string
  quantity :: rat
  unitPrice :: rat
  amount :: rat

record invoice =
  inv_id :: ident
  invoiceNumber :: string
  inv_type :: invoice_type
  inv_vendorId :: "ident option"
  inv_customerId :: "ident option"
  inv_projectId :: "ident option"
  issueDate :: js_date
  dueDate :: js_date
  subtotal :: rat
  tax :: rat
  total :: rat
  inv_currency :: string
  inv_status :: invoice_status
  items :: "invoice_item list"

record payment =
  pay_id :: ident
  paymentNumber :: string
  invoiceId :: ident
  pay_vendorId :: "ident option"
  pay_customerId :: "ident option"
  pay_amount :: rat
  pay_currency :: string
  paymentDate :: js_date
  paymentMethod :: "string option"
  reference :: "string option"

record cash_flow =
  cf_date :: js_date
  cf_type :: cash_flow_type
  category :: string
  cf_amount :: rat
  cf_description :: string

text \<open>The \<^verbatim>\<open>details\<close> JSON object of an audit row, one constructor per shape the handlers write.\<close>

datatype audit_details =
    NoDetails
  | EntryCreated string string
  | RejectReason "string option"
  | InvoiceCreated string invoice_type rat
  | PaymentJournal ident rat
  | PaymentRecorded ident rat "string option"
  | PaymentCreated string ident rat

record audit_log =
  userId :: ident
  action :: string
  entity :: string
  entityId :: ident
  details :: audit_details

record db =
  accounts :: "account list"
  journalEntries :: "journal_entry list"
  invoices :: "invoice list"
  payments :: "payment list"
  cashFlows :: "cash_flow list"
  auditLogs :: "audit_log list"
  nextId :: ident

text \<open>
  \<^verbatim>\<open>throw new AppError(message, statusCode)\<close>. The overpayment message interpolates the remaining
  amount, kept here as a number.
\<close>

datatype app_error =
    AppError string nat
  | PaymentExceeds rat nat

type_synonym 'a outcome = "(app_error + 'a) \<times> db"

section \<open>Database primitives\<close>

text \<open>\<^verbatim>\<open>findUnique({ where: { id } })\<close>: the first row with the key, or \<^verbatim>\<open>null\<close>.\<close>

definition findAccount :: "db \<Rightarrow> ident \<Rightarrow> account option" where
  "findAccount d i = find (\<lambda>a. acc_id a = i) (accounts d)"

definition findAccountByCode :: "db \<Rightarrow> string \<Rightarrow> account option" where
  "findAccountByCode d c = find (\<lambda>a. code a = c) (accounts d)"

definition findJournalEntry :: "db \<Rightarrow> ident \<Rightarrow> journal_entry option" where
  "findJournalEntry d i = find (\<lambda>e. je_id e = i) (journalEntries d)"

definition findInvoice :: "db \<Rightarrow> ident \<Rightarrow> invoice option" where
  "findInvoice d i = find (\<lambda>v. inv_id v = i) (invoices d)"

text \<open>\<^verbatim>\<open>include: { payments: true }\<close>: the payments that reference the invoice.\<close>

definition paymentsOf :: "db \<Rightarrow> ident \<Rightarrow> payment list" where
  "paymentsOf d i = filter (\<lambda>p. invoiceId p = i) (payments d)"

text \<open>\<^verbatim>\<open>prisma.account.update({ where: { id }, data: { balance: { increment: x } } })\<close>.\<close>

definition incrementBalance :: "ident \<Rightarrow> rat \<Rightarrow> account list \<Rightarrow> account list" where
  "incrementBalance i x as =
     map (\<lambda>a. if acc_id a = i then a\<lparr>balance := balance a + x\<rparr> else a) as"

definition decrementBalance :: "ident \<Rightarrow> rat \<Rightarrow> account list \<Rightarrow> account list" where
  "decrementBalance i x as =
     map (\<lambda>a. if acc_id a = i then a\<lparr>balance := balance a - x\<rparr> else a) as"

definition setEntryStatus ::
  "ident \<Rightarrow> entry_status \<Rightarrow> journal_entry list \<Rightarrow> journal_entry list" where
  "setEntryStatus i s es = map (\<lambda>e. if je_id e = i then e\<lparr>je_status := s\<rparr> else e) es"

definition approveEntryRow ::
  "ident \<Rightarrow> js_date \<Rightarrow> journal_entry list \<Rightarrow> journal_entry list" where
  "approveEntryRow i now es =
     map (\<lambda>e. if je_id e = i then e\<lparr>je_status := APPROVED, approvedAt := Some now\<rparr> else e) es"

definition setInvoiceStatus :: "ident \<Rightarrow> invoice_status \<Rightarrow> invoice list \<Rightarrow> invoice list" where
  "setInvoiceStatus i s vs = map (\<lambda>v. if inv_id v = i then v\<lparr>inv_status := s\<rparr> else v) vs"

definition auditLogCreate :: "audit_log \<Rightarrow> db \<Rightarrow> db" where
  "auditLogCreate r d = d\<lparr>auditLogs := auditLogs d @ [r]\<rparr>"

section \<open>Document numbers\<close>

text \<open>\<^verbatim>\<open>String(n)\<close> for a non-negative integer, and \<^verbatim>\<open>padStart(5, '0')\<close>.\<close>

definition digit :: "nat \<Rightarrow> char" where
  "digit n = ''0123456789'' ! n"

fun String :: "nat \<Rightarrow> string" where
  "String n = (if n < 10 then [digit n] else String (n div 10) @ [digit (n mod 10)])"

declare String.simps [simp del]

definition padStart5 :: "string \<Rightarrow> string" where
  "padStart5 s = replicate (5 - length s) CHR ''0'' @ s"

definition formatNumber :: "string \<Rightarrow> nat \<Rightarrow> nat \<Rightarrow> string" where
  "formatNumber prefix year count =
     prefix @ ''-'' @ String year @ ''-'' @ padStart5 (String (count + 1))"

definition generateEntryNumber :: "js_date \<Rightarrow> db \<Rightarrow> string" where
  "generateEntryNumber now d = formatNumber ''JE'' (getFullYear now) (length (journalEntries d))"

definition generateInvoiceNumber :: "js_date \<Rightarrow> invoice_type \<Rightarrow> db \<Rightarrow> string" where
  "generateInvoiceNumber now t d =
     formatNumber (if t = RECEIVABLE then ''INV'' else ''BILL'') (getFullYear now)
       (length (filter (\<lambda>v. inv_type v = t) (invoices d)))"

definition generatePaymentNumber :: "js_date \<Rightarrow> db \<Rightarrow> string" where
  "generatePaymentNumber now d = formatNumber ''PAY'' (getFullYear now) (length (payments d))"

section \<open>Double-precision numbers\<close>














section \<open>Journal controller\<close>






text \<open>
  The body of the loop of \<^verbatim>\<open>approveJournalEntry\<close>: look the account of the line up; skip the line
  when it is missing; otherwise increment its balance by \<open>debit - credit\<close> for a debit-normal
  account and by \<open>credit - debit\<close> for any other.
\<close>

definition balanceChange :: "account_type \<Rightarrow> journal_line \<Rightarrow> rat" where
  "balanceChange t l =
     (if t = ASSET \<or> t = EXPENSE then debit l - credit l else credit l - debit l)"

definition applyLine :: "db \<Rightarrow> journal_line \<Rightarrow> db" where
  "applyLine d l =
     (case findAccount d (accountId l) of
        None \<Rightarrow> d
      | Some account \<Rightarrow>
          d\<lparr>accounts := incrementBalance (accountId l) (balanceChange (acc_type account) l) (accounts d)\<rparr>)"

definition approveJournalEntry :: "js_date \<Rightarrow> ident \<Rightarrow> ident \<Rightarrow> db \<Rightarrow> journal_entry outcome" where
  "approveJournalEntry now uid i d =
     (case findJournalEntry d i of
        None \<Rightarrow> (Inl (AppError ''Journal entry not found'' 404), d)
      | Some entry \<Rightarrow>
          if je_status entry \<noteq> PENDING \<and> je_status entry \<noteq> DRAFT
          then (Inl (AppError ''Entry cannot be approved'' 400), d)
          else
            let d1 = d\<lparr>journalEntries := approveEntryRow i now (journalEntries d)\<rparr>;
                updatedEntry = entry\<lparr>je_status := APPROVED, approvedAt := Some now\<rparr>;
                d2 = foldl applyLine d1 (lines entry);
                d3 = auditLogCreate \<lparr> userId = uid, action = ''APPROVE'', entity = ''JournalEntry'',
                                       entityId = je_id entry, details = NoDetails \<rparr> d2
            in (Inr updatedEntry, d3))"

definition rejectJournalEntry ::
  "ident \<Rightarrow> string option \<Rightarrow> ident \<Rightarrow> db \<Rightarrow> journal_entry outcome" where
  "rejectJournalEntry uid reason i d =
     (case findJournalEntry d i of
        None \<Rightarrow> (Inl (AppError ''Journal entry not found'' 404), d)
      | Some entry \<Rightarrow>
          let d1 = d\<lparr>journalEntries := setEntryStatus i REJECTED (journalEntries d)\<rparr>;
              updatedEntry = entry\<lparr>je_status := REJECTED\<rparr>;
              d2 = auditLogCreate \<lparr> userId = uid, action = ''REJECT'', entity = ''JournalEntry'',
                                     entityId = je_id entry, details = RejectReason reason \<rparr> d1
          in (Inr updatedEntry, d2))"


section \<open>Invoice controller\<close>

record item_body =
  ib_description :: string
  ib_quantity :: rat
  ib_unitPrice :: rat

record invoice_body =
  ib_type :: invoice_type
  ib_vendorId :: "ident option"
  ib_customerId :: "ident option"
  ib_projectId :: "ident option"
  ib_issueDate :: js_date
  ib_dueDate :: js_date
  ib_currency :: "string option"
  ib_items :: "item_body list"

text \<open>\<^verbatim>\<open>x || fallback\<close> on an optional string: the fallback replaces \<^verbatim>\<open>undefined\<close> and \<^verbatim>\<open>''\<close>.\<close>

definition orElse :: "string option \<Rightarrow> string \<Rightarrow> string" where
  "orElse x fallback = (case x of None \<Rightarrow> fallback | Some s \<Rightarrow> if s = [] then fallback else s)"

definition processItem :: "item_body \<Rightarrow> invoice_item" where
  "processItem item =
     \<lparr> item_description = ib_description item, quantity = ib_quantity item,
       unitPrice = ib_unitPrice item, amount = ib_quantity item * ib_unitPrice item \<rparr>"

text \<open>
  \<^verbatim>\<open>prisma.journalEntry.create\<close> with \<^verbatim>\<open>status: 'APPROVED', approvedAt: new Date()\<close>, as the
  invoice and payment handlers call it.
\<close>

definition createApprovedEntry ::
  "js_date \<Rightarrow> ident \<Rightarrow> js_date \<Rightarrow> string \<Rightarrow> journal_line list \<Rightarrow> db \<Rightarrow> db" where
  "createApprovedEntry now uid date descr ls d =
     d\<lparr>journalEntries := journalEntries d @
          [\<lparr> je_id = nextId d, entryNumber = generateEntryNumber now d, je_date = date,
              je_description = descr, je_status = APPROVED, createdById = uid,
              approvedAt = Some now, lines = ls \<rparr>],
       nextId := Suc (nextId d)\<rparr>"

definition createInvoice :: "js_date \<Rightarrow> ident \<Rightarrow> invoice_body \<Rightarrow> db \<Rightarrow> invoice outcome" where
  "createInvoice now uid body d =
     (let processedItems = map processItem (ib_items body);
          subtotal = foldl (\<lambda>s item. s + amount item) 0 processedItems;
          tax = subtotal * 0;
          total = subtotal + tax;
          invoiceNumber = generateInvoiceNumber now (ib_type body) d;
          invoice = \<lparr> inv_id = nextId d, invoiceNumber = invoiceNumber, inv_type = ib_type body,
                      inv_vendorId = ib_vendorId body, inv_customerId = ib_customerId body,
                      inv_projectId = ib_projectId body, issueDate = ib_issueDate body,
                      dueDate = ib_dueDate body, subtotal = subtotal, tax = tax, total = total,
                      inv_currency = orElse (ib_currency body) ''USD'', inv_status = INV_DRAFT,
                      items = processedItems \<rparr>;
          d1 = d\<lparr>invoices := invoices d @ [invoice], nextId := Suc (nextId d)\<rparr>;
          arAccount = findAccountByCode d1 ''1100'';
          apAccount = findAccountByCode d1 ''2000'';
          revenueAccount = findAccountByCode d1 ''4100'';
          cogsAccount = findAccountByCode d1 ''5000'';
          totalNum = total;
          d2 = (case (if ib_type body = RECEIVABLE then arAccount else None, revenueAccount) of
                  (Some ar, Some revenue) \<Rightarrow>
                    let e1 = createApprovedEntry now uid (ib_issueDate body)
                               (''Invoice '' @ invoiceNumber @ '' - Customer billing'')
                               [\<lparr> accountId = acc_id ar, debit = totalNum, credit = 0,
                                   line_description = Some (''AR - '' @ invoiceNumber) \<rparr>,
                                \<lparr> accountId = acc_id revenue, debit = 0, credit = totalNum,
                                   line_description = Some (''Revenue - '' @ invoiceNumber) \<rparr>] d1;
                        e2 = e1\<lparr>accounts := incrementBalance (acc_id ar) totalNum (accounts e1)\<rparr>
                    in e2\<lparr>accounts := incrementBalance (acc_id revenue) totalNum (accounts e2)\<rparr>
                | _ \<Rightarrow>
                    (case (if ib_type body = PAYABLE then apAccount else None, cogsAccount) of
                       (Some ap, Some cogs) \<Rightarrow>
                         let e1 = createApprovedEntry now uid (ib_issueDate body)
                                    (''Bill '' @ invoiceNumber @ '' - Vendor expense'')
                                    [\<lparr> accountId = acc_id cogs, debit = totalNum, credit = 0,
                                        line_description = Some (''Expense - '' @ invoiceNumber) \<rparr>,
                                     \<lparr> accountId = acc_id ap, debit = 0, credit = totalNum,
                                        line_description = Some (''AP - '' @ invoiceNumber) \<rparr>] d1;
                             e2 = e1\<lparr>accounts := incrementBalance (acc_id cogs) totalNum (accounts e1)\<rparr>
                         in e2\<lparr>accounts := incrementBalance (acc_id ap) totalNum (accounts e2)\<rparr>
                     | _ \<Rightarrow> d1));
          d3 = auditLogCreate \<lparr> userId = uid, action = ''CREATE'', entity = ''Invoice'',
                                 entityId = inv_id invoice,
                                 details = InvoiceCreated invoiceNumber (ib_type body) total \<rparr> d2
      in (Inr invoice, d3))"

record record_payment_body =
  rp_amount :: rat
  rp_method :: "string option"
  rp_reference :: "string option"

text \<open>\<^verbatim>\<open>invoice.payments.reduce((sum, p) => sum.plus(p.amount), new Decimal(0))\<close>.\<close>

definition totalPaid :: "db \<Rightarrow> ident \<Rightarrow> rat" where
  "totalPaid d i = foldl (\<lambda>s p. s + pay_amount p) 0 (paymentsOf d i)"

text \<open>
  The journal lines of \<^verbatim>\<open>recordPayment\<close>: the branch
  \<^verbatim>\<open>if (invoice.type === 'RECEIVABLE' && arAccount) ... else if (apAccount) ...\<close>, with \<open>None\<close>
  for \<^verbatim>\<open>lines\<close> left \<^verbatim>\<open>undefined\<close>.
\<close>

definition paymentLines ::
  "invoice \<Rightarrow> account \<Rightarrow> account option \<Rightarrow> account option \<Rightarrow> rat \<Rightarrow> journal_line list option" where
  "paymentLines invoice cashAccount arAccount apAccount paymentAmountNum =
     (case (if inv_type invoice = RECEIVABLE then arAccount else None) of
        Some ar \<Rightarrow>
          Some [\<lparr> accountId = acc_id cashAccount, debit = paymentAmountNum, credit = 0,
                   line_description = Some (''Payment received - '' @ invoiceNumber invoice) \<rparr>,
                \<lparr> accountId = acc_id ar, debit = 0, credit = paymentAmountNum,
                   line_description = Some (''AR reduction - '' @ invoiceNumber invoice) \<rparr>]
      | None \<Rightarrow>
          (case apAccount of
             Some ap \<Rightarrow>
               Some [\<lparr> accountId = acc_id ap, debit = paymentAmountNum, credit = 0,
                        line_description = Some (''AP reduction - '' @ invoiceNumber invoice) \<rparr>,
                     \<lparr> accountId = acc_id cashAccount, debit = 0, credit = paymentAmountNum,
                        line_description = Some (''Payment made - '' @ invoiceNumber invoice) \<rparr>]
           | None \<Rightarrow> None))"

text \<open>The balance updates of \<^verbatim>\<open>recordPayment\<close>, under the same branch.\<close>

definition paymentBalances ::
  "invoice \<Rightarrow> account \<Rightarrow> account option \<Rightarrow> account option \<Rightarrow> rat \<Rightarrow> account list \<Rightarrow> account list" where
  "paymentBalances invoice cashAccount arAccount apAccount paymentAmountNum as =
     (case (if inv_type invoice = RECEIVABLE then arAccount else None) of
        Some ar \<Rightarrow>
          decrementBalance (acc_id ar) paymentAmountNum
            (incrementBalance (acc_id cashAccount) paymentAmountNum as)
      | None \<Rightarrow>
          (case apAccount of
             Some ap \<Rightarrow>
               decrementBalance (acc_id cashAccount) paymentAmountNum
                 (decrementBalance (acc_id ap) paymentAmountNum as)
           | None \<Rightarrow> as))"

text \<open>
  The block \<^verbatim>\<open>if (cashAccount && (arAccount || apAccount)) { ... }\<close> of \<^verbatim>\<open>recordPayment\<close>: the
  journal entry of the payment, the balance updates and the audit row of the entry.
\<close>

definition postPayment :: "js_date \<Rightarrow> ident \<Rightarrow> invoice \<Rightarrow> rat \<Rightarrow> db \<Rightarrow> db" where
  "postPayment now uid invoice paymentAmountNum d =
     (let cashAccount = findAccountByCode d ''1000'';
          arAccount = findAccountByCode d ''1100'';
          apAccount = findAccountByCode d ''2000''
      in case cashAccount of
           None \<Rightarrow> d
         | Some cash \<Rightarrow>
             if arAccount = None \<and> apAccount = None then d
             else
               (case paymentLines invoice cash arAccount apAccount paymentAmountNum of
                  None \<Rightarrow> d
                | Some ls \<Rightarrow>
                    let d1 = createApprovedEntry now uid now
                               (''Payment '' @ (if inv_type invoice = RECEIVABLE then ''received'' else ''made'')
                                  @ '' for '' @ invoiceNumber invoice) ls d;
                        d2 = d1\<lparr>accounts := paymentBalances invoice cash arAccount apAccount
                                                paymentAmountNum (accounts d1)\<rparr>
                    in auditLogCreate \<lparr> userId = uid, action = ''CREATE'', entity = ''JournalEntry'',
                                         entityId = nextId d,
                                         details = PaymentJournal (inv_id invoice) paymentAmountNum \<rparr> d2))"

definition recordPayment ::
  "js_date \<Rightarrow> ident \<Rightarrow> ident \<Rightarrow> record_payment_body \<Rightarrow> db \<Rightarrow> (payment \<times> string) outcome" where
  "recordPayment now uid i body d =
     (case findInvoice d i of
        None \<Rightarrow> (Inl (AppError ''Invoice not found'' 404), d)
      | Some invoice \<Rightarrow>
          if inv_status invoice = PAID
          then (Inl (AppError ''Invoice is already fully paid'' 400), d)
          else
            let paymentAmount = rp_amount body;
                paid = totalPaid d (inv_id invoice);
                remaining = total invoice - paid
            in if paymentAmount > remaining
               then (Inl (PaymentExceeds remaining 400), d)
               else
                 let pmt = \<lparr> pay_id = nextId d, paymentNumber = generatePaymentNumber now d,
                              invoiceId = inv_id invoice, pay_vendorId = None, pay_customerId = None,
                              pay_amount = paymentAmount, pay_currency = ''USD'', paymentDate = now,
                              paymentMethod = Some (orElse (rp_method body) ''BANK_TRANSFER''),
                              reference = rp_reference body \<rparr>;
                     d1 = d\<lparr>payments := payments d @ [pmt], nextId := Suc (nextId d)\<rparr>;
                     newTotalPaid = paid + paymentAmount;
                     isFullyPaid = (newTotalPaid \<ge> total invoice);
                     d2 = d1\<lparr>invoices := setInvoiceStatus (inv_id invoice)
                                             (if isFullyPaid then PAID else PARTIAL) (invoices d1)\<rparr>;
                     d3 = postPayment now uid invoice paymentAmount d2;
                     d4 = auditLogCreate \<lparr> userId = uid, action = ''CREATE'', entity = ''Payment'',
                                            entityId = pay_id pmt,
                                            details = PaymentRecorded (inv_id invoice) paymentAmount
                                                        (rp_method body) \<rparr> d3
                 in (Inr (pmt, if isFullyPaid then ''Invoice fully paid'' else ''Payment recorded''), d4))"

section \<open>Payment controller\<close>

record payment_body =
  pb_invoiceId :: ident
  pb_amount :: rat
  pb_paymentDate :: js_date
  pb_paymentMethod :: "string option"
  pb_reference :: "string option"
  pb_currency :: "string option"

definition createPayment :: "js_date \<Rightarrow> ident \<Rightarrow> payment_body \<Rightarrow> db \<Rightarrow> payment outcome" where
  "createPayment now uid body d =
     (case findInvoice d (pb_invoiceId body) of
        None \<Rightarrow> (Inl (AppError ''Invoice not found'' 404), d)
      | Some invoice \<Rightarrow>
          let paidAmount = totalPaid d (inv_id invoice);
              remainingAmount = total invoice - paidAmount
          in if pb_amount body > remainingAmount
             then (Inl (PaymentExceeds remainingAmount 400), d)
             else
               let paymentNumber = generatePaymentNumber now d;
                   pmt = \<lparr> pay_id = nextId d, paymentNumber = paymentNumber,
                            invoiceId = pb_invoiceId body, pay_vendorId = inv_vendorId invoice,
                            pay_customerId = inv_customerId invoice, pay_amount = pb_amount body,
                            pay_currency = orElse (pb_currency body) (inv_currency invoice),
                            paymentDate = pb_paymentDate body, paymentMethod = pb_paymentMethod body,
                            reference = pb_reference body \<rparr>;
                   d1 = d\<lparr>payments := payments d @ [pmt], nextId := Suc (nextId d)\<rparr>;
                   newPaidAmount = paidAmount + pb_amount body;
                   newStatus = (if newPaidAmount = total invoice then PAID else PARTIAL);
                   d2 = d1\<lparr>invoices := setInvoiceStatus (pb_invoiceId body) newStatus (invoices d1)\<rparr>;
                   d3 = d2\<lparr>cashFlows := cashFlows d2 @
                            [\<lparr> cf_date = pb_paymentDate body,
                                cf_type = (if inv_type invoice = RECEIVABLE then INFLOW else OUTFLOW),
                                category = (if inv_type invoice = RECEIVABLE then ''Customer Payment''
                                            else ''Vendor Payment''),
                                cf_amount = pb_amount body,
                                cf_description = ''Payment for '' @ invoiceNumber invoice \<rparr>]\<rparr>;
                   d4 = auditLogCreate \<lparr> userId = uid, action = ''CREATE'', entity = ''Payment'',
                                          entityId = pay_id pmt,
                                          details = PaymentCreated paymentNumber (pb_invoiceId body)
                                                      (pb_amount body) \<rparr> d3
               in (Inr pmt, d4))"


section \<open>Report controller\<close>

text \<open>
  String helpers of the categorisation heuristics: \<^verbatim>\<open>toLowerCase\<close>, which maps the letters
  A to Z and leaves every other character as it is, \<^verbatim>\<open>startsWith\<close>, and \<^verbatim>\<open>includes\<close> under the
  name \<open>str_includes\<close>. The \<^verbatim>\<open>orderBy\<close> of \<^verbatim>\<open>findMany\<close> is not
  modelled: items are listed in table order.
\<close>

definition toLowerChar :: "char \<Rightarrow> char" where
  "toLowerChar c =
     (let n = (of_char c :: nat) in if 65 \<le> n \<and> n \<le> 90 then char_of (n + 32) else c)"

definition toLowerCase :: "string \<Rightarrow> string" where
  "toLowerCase s = map toLowerChar s"

definition startsWith :: "string \<Rightarrow> string \<Rightarrow> bool" where
  "startsWith s p = (take (length p) s = p)"

fun str_includes :: "string \<Rightarrow> string \<Rightarrow> bool" where
  "str_includes [] p = (p = [])"
| "str_includes (c # cs) p = (startsWith (c # cs) p \<or> str_includes cs p)"

record sheet_item =
  si_code :: string
  si_name :: string
  si_balance :: rat

record sheet_section =
  sec_items :: "sheet_item list"
  sec_total :: rat

definition sheetItems :: "account list \<Rightarrow> sheet_item list" where
  "sheetItems as = map (\<lambda>a. \<lparr> si_code = code a, si_name = name a, si_balance = balance a \<rparr>) as"

text \<open>\<^verbatim>\<open>xs.reduce((sum, a) => sum + Number(a.balance), 0)\<close>.\<close>

definition sumBalances :: "account list \<Rightarrow> rat" where
  "sumBalances as = foldl (\<lambda>s a. s + balance a) 0 as"

definition sheetSection :: "account list \<Rightarrow> sheet_section" where
  "sheetSection as = \<lparr> sec_items = sheetItems as, sec_total = sumBalances as \<rparr>"

record balance_sheet =
  asOfDate :: js_date
  assets_current :: sheet_section
  assets_fixed :: sheet_section
  totalAssets :: rat
  liabilities_current :: sheet_section
  liabilities_longTerm :: sheet_section
  totalLiabilities :: rat
  equity_items :: "sheet_item list"
  totalEquity :: rat
  totalLiabilitiesAndEquity :: rat
  isBalanced :: bool

definition getBalanceSheet :: "js_date \<Rightarrow> js_date option \<Rightarrow> db \<Rightarrow> balance_sheet" where
  "getBalanceSheet now date d =
     (let asOf = (case date of Some x \<Rightarrow> x | None \<Rightarrow> now);
          active = filter isActive (accounts d);
          assets = filter (\<lambda>a. acc_type a = ASSET) active;
          liabilities = filter (\<lambda>a. acc_type a = LIABILITY) active;
          equity = filter (\<lambda>a. acc_type a = EQUITY) active;
          tAssets = sumBalances assets;
          tLiabilities = sumBalances liabilities;
          tEquity = sumBalances equity;
          currentAssets = filter (\<lambda>a.
            startsWith (code a) ''1001'' \<or> startsWith (code a) ''1002'' \<or> startsWith (code a) ''1003'' \<or>
            str_includes (toLowerCase (name a)) ''receivable'' \<or> str_includes (toLowerCase (name a)) ''cash'' \<or>
            str_includes (toLowerCase (name a)) ''inventory'') assets;
          fixedAssets = filter (\<lambda>a.
            startsWith (code a) ''1004'' \<or> startsWith (code a) ''1005'' \<or>
            str_includes (toLowerCase (name a)) ''equipment'' \<or> str_includes (toLowerCase (name a)) ''property'' \<or>
            str_includes (toLowerCase (name a)) ''vehicle'') assets;
          currentLiabilities = filter (\<lambda>a.
            startsWith (code a) ''2001'' \<or> startsWith (code a) ''2002'' \<or>
            str_includes (toLowerCase (name a)) ''payable'' \<or> str_includes (toLowerCase (name a)) ''accrued'') liabilities;
          longTermLiabilities = filter (\<lambda>a.
            startsWith (code a) ''2003'' \<or> startsWith (code a) ''2004'' \<or>
            str_includes (toLowerCase (name a)) ''loan'' \<or> str_includes (toLowerCase (name a)) ''long-term'') liabilities
      in \<lparr> asOfDate = asOf,
           assets_current = sheetSection currentAssets,
           assets_fixed = sheetSection fixedAssets,
           totalAssets = tAssets,
           liabilities_current = sheetSection currentLiabilities,
           liabilities_longTerm = sheetSection longTermLiabilities,
           totalLiabilities = tLiabilities,
           equity_items = sheetItems equity,
           totalEquity = tEquity,
           totalLiabilitiesAndEquity = tLiabilities + tEquity,
           isBalanced = (\<bar>tAssets - (tLiabilities + tEquity)\<bar> < 1 / 100) \<rparr>)"




section \<open>The rules of the specification\<close>

text \<open>
  The normal-balance rule as the specification words it: a debit increases and a credit
  decreases an ASSET or EXPENSE account; a credit increases and a debit decreases a
  LIABILITY, EQUITY or REVENUE account.
\<close>

definition normalBalanceDelta :: "account_type \<Rightarrow> rat \<Rightarrow> rat \<Rightarrow> rat" where
  "normalBalanceDelta t dr cr =
     (case t of
        ASSET \<Rightarrow> dr - cr
      | EXPENSE \<Rightarrow> dr - cr
      | LIABILITY \<Rightarrow> cr - dr
      | EQUITY \<Rightarrow> cr - dr
      | REVENUE \<Rightarrow> cr - dr)"

text \<open>What the lines of an entry post to one account under that rule.\<close>

definition postedDelta :: "journal_line list \<Rightarrow> account \<Rightarrow> rat" where
  "postedDelta ls a =
     sum_list (map (\<lambda>l. normalBalanceDelta (acc_type a) (debit l) (credit l))
                   (filter (\<lambda>l. accountId l = acc_id a) ls))"

text \<open>The balance check of the specification, with the net income of the period.\<close>

definition specIsBalanced :: "rat \<Rightarrow> rat \<Rightarrow> rat \<Rightarrow> rat \<Rightarrow> bool" where
  "specIsBalanced tAssets tLiabilities tEquity net =
     (\<bar>tAssets - (tLiabilities + tEquity + net)\<bar> < 1 / 100)"

text \<open>The sum of the balances of the active accounts of one type.\<close>

definition activeTotal :: "account_type \<Rightarrow> db \<Rightarrow> rat" where
  "activeTotal t d = sum_list (map balance (filter (\<lambda>a. isActive a \<and> acc_type a = t) (accounts d)))"

text \<open>The sum of the payments recorded against an invoice.\<close>

definition paidSum :: "db \<Rightarrow> ident \<Rightarrow> rat" where
  "paidSum d i = sum_list (map pay_amount (filter (\<lambda>p. invoiceId p = i) (payments d)))"

text \<open>The payment invariant: no invoice has payments beyond its total.\<close>

definition paymentsWithinTotal :: "db \<Rightarrow> bool" where
  "paymentsWithinTotal d = (\<forall>v \<in> set (invoices d). paidSum d (inv_id v) \<le> total v)"

section \<open>Sample data\<close>

text \<open>Five accounts of the seed chart of \<^verbatim>\<open>init.sql\<close>, and small ledgers over them.\<close>

definition date0 :: js_date where
  "date0 = \<lparr> getFullYear = 2025, getMonth = 2, getDate = 14, timeOfDay = 0 \<rparr>"

definition date1 :: js_date where
  "date1 = \<lparr> getFullYear = 2025, getMonth = 5, getDate = 30, timeOfDay = 0 \<rparr>"

definition mkAccount :: "ident \<Rightarrow> string \<Rightarrow> string \<Rightarrow> account_type \<Rightarrow> rat \<Rightarrow> account" where
  "mkAccount i c n t b =
     \<lparr> acc_id = i, code = c, name = n, acc_type = t, balance = b, acc_currency = ''USD'',
       isActive = True \<rparr>"

definition chart :: "account list" where
  "chart = [mkAccount 1 ''1000'' ''Cash'' ASSET 0,
            mkAccount 2 ''1100'' ''Accounts Receivable'' ASSET 0,
            mkAccount 3 ''2000'' ''Accounts Payable'' LIABILITY 0,
            mkAccount 4 ''4100'' ''Service Revenue'' REVENUE 0,
            mkAccount 5 ''5000'' ''Cost of Materials'' EXPENSE 0]"

definition saleLines :: "journal_line list" where
  "saleLines = [\<lparr> accountId = 1, debit = 500, credit = 0, line_description = None \<rparr>,
                \<lparr> accountId = 4, debit = 0, credit = 500, line_description = None \<rparr>]"

definition sampleEntry :: "entry_status \<Rightarrow> journal_entry" where
  "sampleEntry s =
     \<lparr> je_id = 10, entryNumber = ''JE-2025-00001'', je_date = date0, je_description = ''Cash sale'',
       je_status = s, createdById = 7, approvedAt = None, lines = saleLines \<rparr>"

definition emptyDb :: db where
  "emptyDb = \<lparr> accounts = chart, journalEntries = [], invoices = [], payments = [],
               cashFlows = [], auditLogs = [], nextId = 11 \<rparr>"

definition ledgerWith :: "entry_status \<Rightarrow> db" where
  "ledgerWith s = emptyDb\<lparr>journalEntries := [sampleEntry s]\<rparr>"

definition sampleInvoice :: "invoice_type \<Rightarrow> invoice" where
  "sampleInvoice t =
     \<lparr> inv_id = 20, invoiceNumber = ''INV-2025-00001'', inv_type = t, inv_vendorId = None,
       inv_customerId = None, inv_projectId = None, issueDate = date0, dueDate = date1,
       subtotal = 1000, tax = 0, total = 1000, inv_currency = ''USD'', inv_status = SENT,
       items = [] \<rparr>"

definition invoiceDb :: "invoice_type \<Rightarrow> db" where
  "invoiceDb t = emptyDb\<lparr>invoices := [sampleInvoice t], nextId := 21\<rparr>"

definition noCashDb :: db where
  "noCashDb = (invoiceDb RECEIVABLE)\<lparr>accounts := tl chart\<rparr>"

definition revenueDb :: db where
  "revenueDb = emptyDb\<lparr>accounts := [mkAccount 2 ''1100'' ''Accounts Receivable'' ASSET 100,
                                      mkAccount 4 ''4100'' ''Service Revenue'' REVENUE 100]\<rparr>"


definition payBody :: "rat \<Rightarrow> record_payment_body" where
  "payBody x = \<lparr> rp_amount = x, rp_method = None, rp_reference = None \<rparr>"

definition paymentBody :: "rat \<Rightarrow> payment_body" where
  "paymentBody x =
     \<lparr> pb_invoiceId = 20, pb_amount = x, pb_paymentDate = date1, pb_paymentMethod = None,
       pb_reference = None, pb_currency = Some ''USD'' \<rparr>"

definition invoiceBody :: "invoice_type \<Rightarrow> invoice_body" where
  "invoiceBody t =
     \<lparr> ib_type = t, ib_vendorId = None, ib_customerId = None, ib_projectId = None,
       ib_issueDate = date0, ib_dueDate = date1, ib_currency = None,
       ib_items = [\<lparr> ib_description = ''Site survey'', ib_quantity = 4, ib_unitPrice = 250 \<rparr>] \<rparr>"

section \<open>Helper lemmas\<close>

lemma balanceChange_normal: "balanceChange t l = normalBalanceDelta t (debit l) (credit l)"
  by (cases t) (simp_all add: balanceChange_def normalBalanceDelta_def)

lemma find_acc_id_Some:
  "find (\<lambda>a. acc_id a = i) as = Some b \<Longrightarrow> b \<in> set as \<and> acc_id b = i"
  by (induction as) (auto split: if_splits)

lemma find_acc_id_None:
  "find (\<lambda>a. acc_id a = i) as = None \<Longrightarrow> \<forall>a \<in> set as. acc_id a \<noteq> i"
  by (induction as) (auto split: if_splits)

lemma applyLine_accounts:
  assumes "distinct (map acc_id (accounts d))"
  shows "accounts (applyLine d l) =
         map (\<lambda>a. if acc_id a = accountId l
                   then a\<lparr>balance := balance a + normalBalanceDelta (acc_type a) (debit l) (credit l)\<rparr>
                   else a) (accounts d)"
proof (cases "findAccount d (accountId l)")
  case None
  then have "\<forall>a \<in> set (accounts d). acc_id a \<noteq> accountId l"
    by (simp add: findAccount_def find_acc_id_None)
  then have "map (\<lambda>a. if acc_id a = accountId l
                   then a\<lparr>balance := balance a + normalBalanceDelta (acc_type a) (debit l) (credit l)\<rparr>
                   else a) (accounts d) = accounts d"
    by (simp add: map_idI)
  with None show ?thesis by (simp add: applyLine_def)
next
  case (Some b)
  then have b: "b \<in> set (accounts d)" "acc_id b = accountId l"
    using find_acc_id_Some[of "accountId l" "accounts d" b] by (simp_all add: findAccount_def)
  have same: "a = b" if "a \<in> set (accounts d)" "acc_id a = accountId l" for a
    using that b assms by (metis distinct_map inj_onD)
  show ?thesis using Some same
    by (auto simp add: applyLine_def incrementBalance_def balanceChange_normal)
qed

lemma applyLine_ids: "map acc_id (accounts (applyLine d l)) = map acc_id (accounts d)"
  by (simp add: applyLine_def incrementBalance_def comp_def split: option.splits)

lemma foldl_applyLine_accounts:
  "distinct (map acc_id (accounts d)) \<Longrightarrow>
   accounts (foldl applyLine d ls) =
     map (\<lambda>a. a\<lparr>balance := balance a + postedDelta ls a\<rparr>) (accounts d)"
proof (induction ls arbitrary: d)
  case Nil
  then show ?case by (simp add: postedDelta_def)
next
  case (Cons l ls)
  have d': "distinct (map acc_id (accounts (applyLine d l)))"
    using Cons.prems by (simp add: applyLine_ids)
  show ?case
    using Cons.IH[OF d'] Cons.prems
    by (simp add: applyLine_accounts postedDelta_def comp_def algebra_simps)
qed

lemma foldl_applyLine_frame:
  "journalEntries (foldl applyLine d ls) = journalEntries d \<and>
   invoices (foldl applyLine d ls) = invoices d \<and>
   payments (foldl applyLine d ls) = payments d \<and>
   cashFlows (foldl applyLine d ls) = cashFlows d \<and>
   auditLogs (foldl applyLine d ls) = auditLogs d \<and>
   nextId (foldl applyLine d ls) = nextId d"
  by (induction ls arbitrary: d) (simp_all add: applyLine_def split: option.splits)

lemma find_approveEntryRow:
  "find (\<lambda>e. je_id e = i) (approveEntryRow i now es) =
   map_option (\<lambda>e. e\<lparr>je_status := APPROVED, approvedAt := Some now\<rparr>) (find (\<lambda>e. je_id e = i) es)"
  by (induction es) (simp_all add: approveEntryRow_def)

lemma find_setEntryStatus:
  "find (\<lambda>e. je_id e = i) (setEntryStatus i s es) =
   map_option (\<lambda>e. e\<lparr>je_status := s\<rparr>) (find (\<lambda>e. je_id e = i) es)"
  by (induction es) (simp_all add: setEntryStatus_def)

lemma sample_simps:
  "accounts emptyDb = chart" "journalEntries emptyDb = []" "invoices emptyDb = []"
  "payments emptyDb = []" "cashFlows emptyDb = []" "auditLogs emptyDb = []" "nextId emptyDb = 11"
  by (simp_all add: emptyDb_def)

lemma chart_distinct: "distinct (map acc_id chart)"
  by (simp add: chart_def mkAccount_def)


section \<open>Journal engine\<close>

text \<open>
  C1. Approving an entry in status DRAFT or PENDING succeeds, and every account ends with
  its balance incremented by what the lines of the entry post to it under the
  normal-balance rule: debit minus credit for an ASSET or EXPENSE account, credit minus
  debit for a LIABILITY, EQUITY or REVENUE account. Account identifiers are the primary key
  of the table, hence distinct.
\<close>

theorem approveJournalEntry_posts_normal_balance:
  assumes "distinct (map acc_id (accounts d))"
      and "findJournalEntry d i = Some entry"
      and "je_status entry = PENDING \<or> je_status entry = DRAFT"
  shows "fst (approveJournalEntry now uid i d) =
           Inr (entry\<lparr>je_status := APPROVED, approvedAt := Some now\<rparr>) \<and>
         accounts (snd (approveJournalEntry now uid i d)) =
           map (\<lambda>a. a\<lparr>balance := balance a + postedDelta (lines entry) a\<rparr>) (accounts d)"
proof -
  let ?d1 = "d\<lparr>journalEntries := approveEntryRow i now (journalEntries d)\<rparr>"
  have "distinct (map acc_id (accounts ?d1))" using assms(1) by simp
  then have "accounts (foldl applyLine ?d1 (lines entry)) =
             map (\<lambda>a. a\<lparr>balance := balance a + postedDelta (lines entry) a\<rparr>) (accounts ?d1)"
    by (rule foldl_applyLine_accounts)
  with assms(2,3) show ?thesis
    by (auto simp add: approveJournalEntry_def Let_def auditLogCreate_def)
qed

theorem approveJournalEntry_posts_normal_balance_witness:
  "distinct (map acc_id (accounts (ledgerWith PENDING))) \<and>
   findJournalEntry (ledgerWith PENDING) 10 = Some (sampleEntry PENDING) \<and>
   je_status (sampleEntry PENDING) = PENDING \<and>
   map balance (accounts (snd (approveJournalEntry date1 7 10 (ledgerWith PENDING)))) =
     [500, 0, 0, 500, 0]"
proof -
  have h1: "distinct (map acc_id (accounts (ledgerWith PENDING)))"
    by (simp add: ledgerWith_def sample_simps chart_distinct)
  have h2: "findJournalEntry (ledgerWith PENDING) 10 = Some (sampleEntry PENDING)"
    by (simp add: findJournalEntry_def ledgerWith_def sampleEntry_def)
  have h3: "je_status (sampleEntry PENDING) = PENDING \<or> je_status (sampleEntry PENDING) = DRAFT"
    by (simp add: sampleEntry_def)
  have "accounts (snd (approveJournalEntry date1 7 10 (ledgerWith PENDING))) =
          map (\<lambda>a. a\<lparr>balance := balance a + postedDelta (lines (sampleEntry PENDING)) a\<rparr>)
              (accounts (ledgerWith PENDING))"
    using approveJournalEntry_posts_normal_balance [OF h1 h2 h3] by simp
  then have "map balance (accounts (snd (approveJournalEntry date1 7 10 (ledgerWith PENDING)))) =
          [500, 0, 0, 500, 0]"
    by (simp add: ledgerWith_def sample_simps chart_def mkAccount_def sampleEntry_def
          saleLines_def postedDelta_def normalBalanceDelta_def)
  with h1 h2 show ?thesis by (simp add: sampleEntry_def)
qed





text \<open>
  C3. \<^verbatim>\<open>approveJournalEntry\<close> succeeds only on an entry in status DRAFT or PENDING. On an
  entry already APPROVED or REJECTED it throws (status 400) and leaves the whole database,
  hence every balance, as it was. After a successful approval any further approval of the
  same entry fails in that way, so the balances are applied at most once.
\<close>

theorem approveJournalEntry_only_draft_or_pending:
  "(fst (approveJournalEntry now uid i d) = Inr r \<longrightarrow>
      (\<exists>e. findJournalEntry d i = Some e \<and> (je_status e = DRAFT \<or> je_status e = PENDING))) \<and>
   (findJournalEntry d i = Some e \<and> (je_status e = APPROVED \<or> je_status e = REJECTED) \<longrightarrow>
      approveJournalEntry now uid i d = (Inl (AppError ''Entry cannot be approved'' 400), d)) \<and>
   (fst (approveJournalEntry now uid i d) = Inr r \<longrightarrow>
      approveJournalEntry now' uid' i (snd (approveJournalEntry now uid i d)) =
        (Inl (AppError ''Entry cannot be approved'' 400), snd (approveJournalEntry now uid i d)))"
proof (intro conjI impI)
  assume "fst (approveJournalEntry now uid i d) = Inr r"
  then show "\<exists>e. findJournalEntry d i = Some e \<and> (je_status e = DRAFT \<or> je_status e = PENDING)"
    by (auto simp add: approveJournalEntry_def split: option.splits if_splits)
next
  assume "findJournalEntry d i = Some e \<and> (je_status e = APPROVED \<or> je_status e = REJECTED)"
  then show "approveJournalEntry now uid i d = (Inl (AppError ''Entry cannot be approved'' 400), d)"
    by (auto simp add: approveJournalEntry_def)
next
  assume ok: "fst (approveJournalEntry now uid i d) = Inr r"
  let ?d' = "snd (approveJournalEntry now uid i d)"
  from ok obtain e where e: "findJournalEntry d i = Some e"
    by (auto simp add: approveJournalEntry_def split: option.splits)
  from ok e have "journalEntries ?d' = approveEntryRow i now (journalEntries d)"
    by (auto simp add: approveJournalEntry_def Let_def auditLogCreate_def foldl_applyLine_frame
             split: if_splits)
  with e have "findJournalEntry ?d' i = Some (e\<lparr>je_status := APPROVED, approvedAt := Some now\<rparr>)"
    by (simp add: findJournalEntry_def find_approveEntryRow)
  then show "approveJournalEntry now' uid' i ?d' = (Inl (AppError ''Entry cannot be approved'' 400), ?d')"
    by (simp add: approveJournalEntry_def)
qed

theorem approveJournalEntry_only_draft_or_pending_witness:
  "approveJournalEntry date1 7 10 (ledgerWith APPROVED) =
     (Inl (AppError ''Entry cannot be approved'' 400), ledgerWith APPROVED) \<and>
   approveJournalEntry date1 7 10 (ledgerWith REJECTED) =
     (Inl (AppError ''Entry cannot be approved'' 400), ledgerWith REJECTED) \<and>
   fst (approveJournalEntry date0 7 10 (ledgerWith PENDING)) =
     Inr ((sampleEntry PENDING)\<lparr>je_status := APPROVED, approvedAt := Some date0\<rparr>) \<and>
   approveJournalEntry date1 8 10 (snd (approveJournalEntry date0 7 10 (ledgerWith PENDING))) =
     (Inl (AppError ''Entry cannot be approved'' 400),
      snd (approveJournalEntry date0 7 10 (ledgerWith PENDING)))"
proof -
  have found: "findJournalEntry (ledgerWith s) 10 = Some (sampleEntry s)" for s
    by (simp add: findJournalEntry_def ledgerWith_def sampleEntry_def)
  have st: "je_status (sampleEntry s) = s" for s
    by (simp add: sampleEntry_def)
  have ok: "fst (approveJournalEntry date0 7 10 (ledgerWith PENDING)) =
              Inr ((sampleEntry PENDING)\<lparr>je_status := APPROVED, approvedAt := Some date0\<rparr>)"
    by (simp add: approveJournalEntry_def found st Let_def auditLogCreate_def)
  show ?thesis
    using approveJournalEntry_only_draft_or_pending
            [of date1 7 10 "ledgerWith APPROVED" "sampleEntry APPROVED" "sampleEntry APPROVED"]
          approveJournalEntry_only_draft_or_pending
            [of date1 7 10 "ledgerWith REJECTED" "sampleEntry REJECTED" "sampleEntry REJECTED"]
          approveJournalEntry_only_draft_or_pending
            [of date0 7 10 "ledgerWith PENDING"
                "(sampleEntry PENDING)\<lparr>je_status := APPROVED, approvedAt := Some date0\<rparr>"
                "sampleEntry PENDING" date1 8]
          found st ok
    by simp
qed

text \<open>
  C4, evaluated on the code. \<^verbatim>\<open>rejectJournalEntry\<close> has no status check: on an entry that
  is already APPROVED the call succeeds and stores REJECTED, where the claim asks for an
  invalid-transition error and an unchanged status.
\<close>

theorem rejectJournalEntry_accepts_approved_entry:
  "findJournalEntry (ledgerWith APPROVED) 10 = Some (sampleEntry APPROVED) \<and>
   fst (rejectJournalEntry 7 (Some ''too late'') 10 (ledgerWith APPROVED)) =
     Inr (sampleEntry REJECTED) \<and>
   journalEntries (snd (rejectJournalEntry 7 (Some ''too late'') 10 (ledgerWith APPROVED))) =
     [sampleEntry REJECTED]"
  by (simp add: rejectJournalEntry_def findJournalEntry_def ledgerWith_def sampleEntry_def
        Let_def auditLogCreate_def setEntryStatus_def)

text \<open>
  C10. \<^verbatim>\<open>rejectJournalEntry\<close> leaves the accounts, invoices, payments and cash-flow rows
  as they were. When the entry exists, whatever its status, the call succeeds, rewrites the
  status of that entry to REJECTED and nothing else in the journal, and appends one audit
  row. So an entry rejected after its approval keeps the balances its approval applied.
\<close>

theorem rejectJournalEntry_frame:
  "accounts (snd (rejectJournalEntry uid reason i d)) = accounts d \<and>
   invoices (snd (rejectJournalEntry uid reason i d)) = invoices d \<and>
   payments (snd (rejectJournalEntry uid reason i d)) = payments d \<and>
   cashFlows (snd (rejectJournalEntry uid reason i d)) = cashFlows d \<and>
   (findJournalEntry d i = None \<longrightarrow>
      rejectJournalEntry uid reason i d = (Inl (AppError ''Journal entry not found'' 404), d)) \<and>
   (findJournalEntry d i = Some e \<longrightarrow>
      fst (rejectJournalEntry uid reason i d) = Inr (e\<lparr>je_status := REJECTED\<rparr>) \<and>
      journalEntries (snd (rejectJournalEntry uid reason i d)) =
        map (\<lambda>x. if je_id x = i then x\<lparr>je_status := REJECTED\<rparr> else x) (journalEntries d) \<and>
      findJournalEntry (snd (rejectJournalEntry uid reason i d)) i = Some (e\<lparr>je_status := REJECTED\<rparr>) \<and>
      auditLogs (snd (rejectJournalEntry uid reason i d)) =
        auditLogs d @ [\<lparr> userId = uid, action = ''REJECT'', entity = ''JournalEntry'',
                         entityId = je_id e, details = RejectReason reason \<rparr>])"
proof -
  have found: "findJournalEntry (snd (rejectJournalEntry uid reason i d)) i = Some (e\<lparr>je_status := REJECTED\<rparr>)"
    if "findJournalEntry d i = Some e"
    using that
    by (simp add: rejectJournalEntry_def Let_def auditLogCreate_def findJournalEntry_def
          find_setEntryStatus)
  show ?thesis
    using found
    by (auto simp add: rejectJournalEntry_def Let_def auditLogCreate_def setEntryStatus_def
          split: option.splits)
qed


theorem rejectJournalEntry_frame_witness:
  "findJournalEntry (snd (approveJournalEntry date0 7 10 (ledgerWith PENDING))) 10 =
     Some ((sampleEntry PENDING)\<lparr>je_status := APPROVED, approvedAt := Some date0\<rparr>) \<and>
   map balance (accounts (snd (approveJournalEntry date0 7 10 (ledgerWith PENDING)))) =
     [500, 0, 0, 500, 0] \<and>
   map balance (accounts (snd (rejectJournalEntry 8 (Some ''too late'') 10
      (snd (approveJournalEntry date0 7 10 (ledgerWith PENDING)))))) = [500, 0, 0, 500, 0] \<and>
   findJournalEntry (snd (rejectJournalEntry 8 (Some ''too late'') 10
      (snd (approveJournalEntry date0 7 10 (ledgerWith PENDING))))) 10 =
     Some ((sampleEntry PENDING)\<lparr>je_status := REJECTED, approvedAt := Some date0\<rparr>)"
proof -
  let ?D = "snd (approveJournalEntry date0 7 10 (ledgerWith PENDING))"
  have found: "findJournalEntry ?D 10 =
                 Some ((sampleEntry PENDING)\<lparr>je_status := APPROVED, approvedAt := Some date0\<rparr>)"
    by (simp add: approveJournalEntry_def findJournalEntry_def ledgerWith_def sampleEntry_def
          Let_def auditLogCreate_def foldl_applyLine_frame approveEntryRow_def)
  have bal: "map balance (accounts ?D) = [500, 0, 0, 500, 0]"
    by (simp add: approveJournalEntry_def findJournalEntry_def ledgerWith_def sampleEntry_def
          saleLines_def Let_def auditLogCreate_def applyLine_def findAccount_def emptyDb_def
          chart_def mkAccount_def incrementBalance_def balanceChange_def)
  show ?thesis
    using rejectJournalEntry_frame
            [of 8 "Some ''too late''" 10 ?D
                "(sampleEntry PENDING)\<lparr>je_status := APPROVED, approvedAt := Some date0\<rparr>"]
          found bal
    by simp
qed

section \<open>Payments\<close>

lemma totalPaid_paidSum: "totalPaid d i = paidSum d i"
proof -
  have "foldl (\<lambda>s p. s + pay_amount p) z ps = z + sum_list (map pay_amount ps)"
    for z :: rat and ps :: "payment list"
    by (induction ps arbitrary: z) (simp_all add: algebra_simps)
  then show ?thesis by (simp add: totalPaid_def paidSum_def paymentsOf_def)
qed

lemma find_inv_id_Some:
  "find (\<lambda>v. inv_id v = i) vs = Some b \<Longrightarrow> b \<in> set vs \<and> inv_id b = i"
  by (induction vs) (auto split: if_splits)

lemma find_setInvoiceStatus:
  "find (\<lambda>v. inv_id v = i) (setInvoiceStatus i s vs) =
   map_option (\<lambda>v. v\<lparr>inv_status := s\<rparr>) (find (\<lambda>v. inv_id v = i) vs)"
  by (induction vs) (simp_all add: setInvoiceStatus_def)

lemma postPayment_frame:
  "invoices (postPayment now uid ivc x d) = invoices d \<and>
   payments (postPayment now uid ivc x d) = payments d \<and>
   cashFlows (postPayment now uid ivc x d) = cashFlows d"
  by (simp add: postPayment_def Let_def createApprovedEntry_def auditLogCreate_def
        split: option.splits)

text \<open>What a successful \<^verbatim>\<open>recordPayment\<close> leaves in the invoice and payment tables.\<close>

lemma recordPayment_tables:
  assumes "findInvoice d i = Some ivc" "inv_status ivc \<noteq> PAID"
      and "rp_amount body \<le> total ivc - paidSum d (inv_id ivc)"
  shows "\<exists>p. payments (snd (recordPayment now uid i body d)) = payments d @ [p] \<and>
             invoiceId p = inv_id ivc \<and> pay_amount p = rp_amount body"
    and "invoices (snd (recordPayment now uid i body d)) =
           setInvoiceStatus (inv_id ivc)
             (if paidSum d (inv_id ivc) + rp_amount body \<ge> total ivc then PAID else PARTIAL)
             (invoices d)"
    and "\<exists>r. fst (recordPayment now uid i body d) = Inr r"
  using assms
  by (simp_all add: recordPayment_def Let_def totalPaid_paidSum auditLogCreate_def
        postPayment_frame)

lemma createPayment_tables:
  assumes "findInvoice d (pb_invoiceId body) = Some ivc"
      and "pb_amount body \<le> total ivc - paidSum d (inv_id ivc)"
  shows "\<exists>p. payments (snd (createPayment now uid body d)) = payments d @ [p] \<and>
             invoiceId p = pb_invoiceId body \<and> pay_amount p = pb_amount body"
    and "invoices (snd (createPayment now uid body d)) =
           setInvoiceStatus (pb_invoiceId body)
             (if paidSum d (inv_id ivc) + pb_amount body = total ivc then PAID else PARTIAL)
             (invoices d)"
    and "\<exists>r. fst (createPayment now uid body d) = Inr r"
  using assms
  by (simp_all add: createPayment_def Let_def totalPaid_paidSum auditLogCreate_def)

lemma paidSum_append:
  "payments d' = payments d @ [p] \<Longrightarrow>
   paidSum d' j = paidSum d j + (if invoiceId p = j then pay_amount p else 0)"
  by (simp add: paidSum_def)

lemma withinTotal_step:
  assumes dist: "distinct (map inv_id (invoices d))"
      and within: "paymentsWithinTotal d"
      and found: "ivc \<in> set (invoices d)"
      and pay: "payments d' = payments d @ [p]" "invoiceId p = inv_id ivc"
               "pay_amount p \<le> total ivc - paidSum d (inv_id ivc)"
      and invs: "invoices d' = setInvoiceStatus k s (invoices d)"
  shows "paymentsWithinTotal d'"
  unfolding paymentsWithinTotal_def
proof
  fix v assume "v \<in> set (invoices d')"
  then obtain w where w: "w \<in> set (invoices d)" "inv_id v = inv_id w" "total v = total w"
    using invs by (auto simp add: setInvoiceStatus_def split: if_splits)
  have old: "paidSum d (inv_id w) \<le> total w"
    using within w(1) by (simp add: paymentsWithinTotal_def)
  show "paidSum d' (inv_id v) \<le> total v"
  proof (cases "inv_id w = inv_id ivc")
    case True
    then have "w = ivc" using dist w(1) found by (metis distinct_map inj_onD)
    then show ?thesis using pay w by (simp add: paidSum_append)
  next
    case False
    then show ?thesis using pay(1,2) w old by (simp add: paidSum_append)
  qed
qed


lemma recordPayment_rejected:
  "findInvoice d i = None \<or>
   (\<exists>ivc. findInvoice d i = Some ivc \<and>
      (inv_status ivc = PAID \<or> rp_amount body > total ivc - paidSum d (inv_id ivc))) \<Longrightarrow>
   \<exists>err. recordPayment now uid i body d = (Inl err, d)"
  by (auto simp add: recordPayment_def Let_def totalPaid_paidSum)

lemma createPayment_rejected:
  "findInvoice d (pb_invoiceId body) = Some ivc \<Longrightarrow>
   pb_amount body > total ivc - paidSum d (inv_id ivc) \<Longrightarrow>
   createPayment now uid body d = (Inl (PaymentExceeds (total ivc - paidSum d (inv_id ivc)) 400), d)"
  by (simp add: createPayment_def Let_def totalPaid_paidSum)

lemma recordPayment_within:
  assumes "distinct (map inv_id (invoices d))" and "paymentsWithinTotal d"
  shows "paymentsWithinTotal (snd (recordPayment now uid i body d))"
proof (cases "findInvoice d i")
  case None
  then show ?thesis using assms(2) recordPayment_rejected[of d i body now uid] by auto
next
  case (Some ivc)
  then have mem: "ivc \<in> set (invoices d)" and key: "inv_id ivc = i"
    using find_inv_id_Some[of i "invoices d" ivc] by (simp_all add: findInvoice_def)
  show ?thesis
  proof (cases "inv_status ivc = PAID \<or> rp_amount body > total ivc - paidSum d (inv_id ivc)")
    case True
    then show ?thesis using Some assms(2) recordPayment_rejected[of d i body now uid] by auto
  next
    case False
    then have ok: "inv_status ivc \<noteq> PAID" "rp_amount body \<le> total ivc - paidSum d (inv_id ivc)"
      by auto
    from recordPayment_tables(1)[OF Some ok, of now uid]
    obtain p where p: "payments (snd (recordPayment now uid i body d)) = payments d @ [p]"
        "invoiceId p = inv_id ivc" "pay_amount p = rp_amount body"
      by blast
    show ?thesis
      using withinTotal_step[OF assms mem p(1,2) _ recordPayment_tables(2)[OF Some ok]] p(3) ok(2)
      by simp
  qed
qed

lemma createPayment_within:
  assumes "distinct (map inv_id (invoices d))" and "paymentsWithinTotal d"
  shows "paymentsWithinTotal (snd (createPayment now uid body d))"
proof (cases "findInvoice d (pb_invoiceId body)")
  case None
  then show ?thesis using assms(2) by (simp add: createPayment_def)
next
  case (Some ivc)
  then have mem: "ivc \<in> set (invoices d)" and key: "inv_id ivc = pb_invoiceId body"
    using find_inv_id_Some[of "pb_invoiceId body" "invoices d" ivc] by (simp_all add: findInvoice_def)
  show ?thesis
  proof (cases "pb_amount body > total ivc - paidSum d (inv_id ivc)")
    case True
    then show ?thesis using assms(2) createPayment_rejected[OF Some True] by simp
  next
    case False
    then have ok: "pb_amount body \<le> total ivc - paidSum d (inv_id ivc)" by simp
    from createPayment_tables(1)[OF Some ok, of now uid]
    obtain p where p: "payments (snd (createPayment now uid body d)) = payments d @ [p]"
        "invoiceId p = pb_invoiceId body" "pay_amount p = pb_amount body"
      by blast
    show ?thesis
      using withinTotal_step[OF assms mem p(1) _ _ createPayment_tables(2)[OF Some ok]] p(2,3) ok key
      by simp
  qed
qed

text \<open>
  C5. Both payment handlers (\<^verbatim>\<open>recordPayment\<close> of the invoice controller and
  \<^verbatim>\<open>createPayment\<close> of the payment controller) keep the payments of every invoice within
  its total, invoice identifiers being the primary key. A payment greater than the remaining
  amount of its invoice is answered with an error and the database is left as it was: no
  payment, no journal entry, no balance and no invoice status changes.
\<close>

theorem payments_never_exceed_total:
  assumes "distinct (map inv_id (invoices d))" and "paymentsWithinTotal d"
  shows "paymentsWithinTotal (snd (recordPayment now uid i rbody d)) \<and>
         paymentsWithinTotal (snd (createPayment now uid pbody d)) \<and>
         (\<forall>ivc. findInvoice d i = Some ivc \<and> rp_amount rbody > total ivc - paidSum d i \<longrightarrow>
            (\<exists>err. recordPayment now uid i rbody d = (Inl err, d))) \<and>
         (\<forall>ivc. findInvoice d (pb_invoiceId pbody) = Some ivc \<and>
                pb_amount pbody > total ivc - paidSum d (pb_invoiceId pbody) \<longrightarrow>
            createPayment now uid pbody d =
              (Inl (PaymentExceeds (total ivc - paidSum d (pb_invoiceId pbody)) 400), d))"
proof (intro conjI allI impI)
  show "paymentsWithinTotal (snd (recordPayment now uid i rbody d))"
    using assms by (rule recordPayment_within)
  show "paymentsWithinTotal (snd (createPayment now uid pbody d))"
    using assms by (rule createPayment_within)
next
  fix ivc
  assume a: "findInvoice d i = Some ivc \<and> rp_amount rbody > total ivc - paidSum d i"
  then have "inv_id ivc = i"
    using find_inv_id_Some[of i "invoices d" ivc] by (simp add: findInvoice_def)
  with a show "\<exists>err. recordPayment now uid i rbody d = (Inl err, d)"
    using recordPayment_rejected[of d i rbody now uid] by auto
next
  fix ivc
  assume a: "findInvoice d (pb_invoiceId pbody) = Some ivc \<and>
             pb_amount pbody > total ivc - paidSum d (pb_invoiceId pbody)"
  then have "inv_id ivc = pb_invoiceId pbody"
    using find_inv_id_Some[of "pb_invoiceId pbody" "invoices d" ivc] by (simp add: findInvoice_def)
  with a show "createPayment now uid pbody d =
      (Inl (PaymentExceeds (total ivc - paidSum d (pb_invoiceId pbody)) 400), d)"
    using createPayment_rejected[of d pbody ivc now uid] by simp
qed

theorem payments_never_exceed_total_witness:
  "distinct (map inv_id (invoices (invoiceDb RECEIVABLE))) \<and>
   paymentsWithinTotal (invoiceDb RECEIVABLE) \<and>
   findInvoice (invoiceDb RECEIVABLE) 20 = Some (sampleInvoice RECEIVABLE) \<and>
   paymentsWithinTotal (snd (recordPayment date1 7 20 (payBody 400) (invoiceDb RECEIVABLE))) \<and>
   paymentsWithinTotal (snd (createPayment date1 7 (paymentBody 400) (invoiceDb RECEIVABLE))) \<and>
   (\<exists>err. recordPayment date1 7 20 (payBody 1001) (invoiceDb RECEIVABLE) =
      (Inl err, invoiceDb RECEIVABLE)) \<and>
   createPayment date1 7 (paymentBody 1001) (invoiceDb RECEIVABLE) =
     (Inl (PaymentExceeds 1000 400), invoiceDb RECEIVABLE)"
proof -
  have h1: "distinct (map inv_id (invoices (invoiceDb RECEIVABLE)))"
    by (simp add: invoiceDb_def)
  have h2: "paymentsWithinTotal (invoiceDb RECEIVABLE)"
    by (simp add: paymentsWithinTotal_def invoiceDb_def sample_simps paidSum_def sampleInvoice_def)
  have found: "findInvoice (invoiceDb RECEIVABLE) 20 = Some (sampleInvoice RECEIVABLE)"
    by (simp add: findInvoice_def invoiceDb_def sampleInvoice_def)
  have facts: "total (sampleInvoice RECEIVABLE) = 1000" "paidSum (invoiceDb RECEIVABLE) 20 = 0"
    "rp_amount (payBody 1001) = 1001" "pb_amount (paymentBody 1001) = 1001"
    "pb_invoiceId (paymentBody 1001) = 20" "pb_invoiceId (paymentBody 400) = 20"
    by (simp_all add: sampleInvoice_def paidSum_def invoiceDb_def sample_simps payBody_def
          paymentBody_def)
  show ?thesis
    using payments_never_exceed_total [OF h1 h2, of date1 7 20 "payBody 400" "paymentBody 400"]
          payments_never_exceed_total [OF h1 h2, of date1 7 20 "payBody 1001" "paymentBody 1001"]
    by (simp add: h1 h2 found facts)
qed


section \<open>Posting rules\<close>

lemma find_code_Some:
  "find (\<lambda>a. code a = c) as = Some b \<Longrightarrow> b \<in> set as \<and> code b = c"
  by (induction as) (auto split: if_splits)

lemma postPayment_posted:
  assumes "findAccountByCode d ''1000'' = Some cash"
      and "findAccountByCode d (if inv_type ivc = RECEIVABLE then ''1100'' else ''2000'') = Some other"
  shows "journalEntries (postPayment now uid ivc x d) =
           journalEntries d @
           [\<lparr> je_id = nextId d, entryNumber = generateEntryNumber now d, je_date = now,
               je_description = ''Payment '' @ (if inv_type ivc = RECEIVABLE then ''received'' else ''made'')
                  @ '' for '' @ invoiceNumber ivc,
               je_status = APPROVED, createdById = uid, approvedAt = Some now,
               lines = (if inv_type ivc = RECEIVABLE
                        then [\<lparr> accountId = acc_id cash, debit = x, credit = 0,
                                 line_description = Some (''Payment received - '' @ invoiceNumber ivc) \<rparr>,
                              \<lparr> accountId = acc_id other, debit = 0, credit = x,
                                 line_description = Some (''AR reduction - '' @ invoiceNumber ivc) \<rparr>]
                        else [\<lparr> accountId = acc_id other, debit = x, credit = 0,
                                 line_description = Some (''AP reduction - '' @ invoiceNumber ivc) \<rparr>,
                              \<lparr> accountId = acc_id cash, debit = 0, credit = x,
                                 line_description = Some (''Payment made - '' @ invoiceNumber ivc) \<rparr>]) \<rparr>]"
proof (cases "inv_type ivc")
  case RECEIVABLE
  with assms show ?thesis
    by (simp add: postPayment_def Let_def paymentLines_def createApprovedEntry_def
          auditLogCreate_def)
next
  case PAYABLE
  with assms show ?thesis
    by (simp add: postPayment_def Let_def paymentLines_def createApprovedEntry_def
          auditLogCreate_def)
qed

lemma recordPayment_journal:
  assumes "fst (recordPayment now uid i body d) = Inr r" and "findInvoice d i = Some ivc"
  shows "inv_status ivc \<noteq> PAID" and "rp_amount body \<le> total ivc - paidSum d (inv_id ivc)"
    and "\<exists>d2. journalEntries (snd (recordPayment now uid i body d)) =
                 journalEntries (postPayment now uid ivc (rp_amount body) d2) \<and>
               accounts d2 = accounts d \<and> journalEntries d2 = journalEntries d \<and>
               nextId d2 = Suc (nextId d)"
  using assms
  by (auto simp add: recordPayment_def Let_def totalPaid_paidSum auditLogCreate_def
        split: if_splits)


lemma findAccountByCode_cong:
  "accounts d2 = accounts d \<Longrightarrow> findAccountByCode d2 c = findAccountByCode d c"
  by (simp add: findAccountByCode_def)

lemma postPayment_no_cash:
  "findAccountByCode d ''1000'' = None \<Longrightarrow>
   journalEntries (postPayment now uid ivc x d) = journalEntries d"
  by (simp add: postPayment_def)

lemma createPayment_accepted:
  assumes "fst (createPayment now uid body d) = Inr p"
      and "findInvoice d (pb_invoiceId body) = Some ivc"
  shows "pb_amount body \<le> total ivc - paidSum d (inv_id ivc)"
  using assms
  by (auto simp add: createPayment_def Let_def totalPaid_paidSum split: if_splits)

text \<open>
  C6, as the code has it. A payment recorded by \<^verbatim>\<open>recordPayment\<close> while the Cash account
  (code 1000) is missing succeeds, stores the payment and moves the invoice to PARTIAL, and
  posts no journal entry.
\<close>

theorem recordPayment_without_cash_counterexample:
  "findInvoice noCashDb 20 = Some (sampleInvoice RECEIVABLE) \<and>
   findAccountByCode noCashDb ''1000'' = None \<and>
   \<not> isl (fst (recordPayment date1 7 20 (payBody 400) noCashDb)) \<and>
   map pay_amount (payments (snd (recordPayment date1 7 20 (payBody 400) noCashDb))) = [400] \<and>
   map inv_status (invoices (snd (recordPayment date1 7 20 (payBody 400) noCashDb))) = [PARTIAL] \<and>
   journalEntries (snd (recordPayment date1 7 20 (payBody 400) noCashDb)) = []"
  by (simp add: recordPayment_def findInvoice_def noCashDb_def invoiceDb_def sampleInvoice_def
        sample_simps chart_def mkAccount_def findAccountByCode_def payBody_def Let_def
        totalPaid_def paymentsOf_def setInvoiceStatus_def postPayment_def auditLogCreate_def)


lemma recordPayment_entry_posted:
  assumes "fst (recordPayment now uid i body d) = Inr r"
      and "findInvoice d i = Some ivc"
      and "findAccountByCode d ''1000'' = Some cash"
      and "findAccountByCode d (if inv_type ivc = RECEIVABLE then ''1100'' else ''2000'') = Some other"
  shows "\<exists>e. journalEntries (snd (recordPayment now uid i body d)) = journalEntries d @ [e] \<and>
             je_status e = APPROVED \<and> approvedAt e = Some now \<and>
             map (\<lambda>l. (accountId l, debit l, credit l)) (lines e) =
               (if inv_type ivc = RECEIVABLE
                then [(acc_id cash, rp_amount body, 0), (acc_id other, 0, rp_amount body)]
                else [(acc_id other, rp_amount body, 0), (acc_id cash, 0, rp_amount body)])"
proof -
  from recordPayment_journal(3)[OF assms(1,2)]
  obtain d2 where d2:
      "journalEntries (snd (recordPayment now uid i body d)) =
         journalEntries (postPayment now uid ivc (rp_amount body) d2)"
      "accounts d2 = accounts d" "journalEntries d2 = journalEntries d"
    by blast
  have c1: "findAccountByCode d2 ''1000'' = Some cash"
    using assms(3) findAccountByCode_cong[OF d2(2)] by simp
  have c2: "findAccountByCode d2 (if inv_type ivc = RECEIVABLE then ''1100'' else ''2000'') = Some other"
    using assms(4) findAccountByCode_cong[OF d2(2)] by simp
  show ?thesis
    unfolding d2(1) postPayment_posted[OF c1 c2] d2(3)
    by (cases "inv_type ivc") simp_all
qed

lemma recordPayment_entry_skipped:
  assumes "fst (recordPayment now uid i body d) = Inr r"
      and "findInvoice d i = Some ivc"
      and "findAccountByCode d ''1000'' = None"
  shows "journalEntries (snd (recordPayment now uid i body d)) = journalEntries d"
proof -
  from recordPayment_journal(3)[OF assms(1,2)]
  obtain d2 where d2:
      "journalEntries (snd (recordPayment now uid i body d)) =
         journalEntries (postPayment now uid ivc (rp_amount body) d2)"
      "accounts d2 = accounts d" "journalEntries d2 = journalEntries d"
    by blast
  have "findAccountByCode d2 ''1000'' = None"
    using assms(3) findAccountByCode_cong[OF d2(2)] by simp
  then show ?thesis
    unfolding d2(1) by (simp only: postPayment_no_cash d2(3))
qed

lemma recordPayment_status:
  assumes "fst (recordPayment now uid i body d) = Inr r"
      and "findInvoice d i = Some ivc"
  shows "findInvoice (snd (recordPayment now uid i body d)) i =
           Some (ivc\<lparr>inv_status := if paidSum d i + rp_amount body \<ge> total ivc then PAID else PARTIAL\<rparr>)"
proof -
  have key: "inv_id ivc = i"
    using assms(2) find_inv_id_Some[of i "invoices d" ivc] by (simp add: findInvoice_def)
  note ok = recordPayment_journal(1,2)[OF assms]
  have "invoices (snd (recordPayment now uid i body d)) =
          setInvoiceStatus i
            (if paidSum d i + rp_amount body \<ge> total ivc then PAID else PARTIAL) (invoices d)"
    using recordPayment_tables(2)[OF assms(2) ok, of now uid] unfolding key .
  then have "findInvoice (snd (recordPayment now uid i body d)) i =
          map_option (\<lambda>v. v\<lparr>inv_status := if paidSum d i + rp_amount body \<ge> total ivc
                                            then PAID else PARTIAL\<rparr>) (findInvoice d i)"
    by (simp only: findInvoice_def find_setInvoiceStatus)
  then show ?thesis by (simp only: assms(2) option.map)
qed

lemma createPayment_status:
  assumes "fst (createPayment now uid body d) = Inr p"
      and "findInvoice d (pb_invoiceId body) = Some ivc"
  shows "findInvoice (snd (createPayment now uid body d)) (pb_invoiceId body) =
           Some (ivc\<lparr>inv_status := if paidSum d (pb_invoiceId body) + pb_amount body \<ge> total ivc
                                      then PAID else PARTIAL\<rparr>)"
proof -
  have key: "inv_id ivc = pb_invoiceId body"
    using assms(2) find_inv_id_Some[of "pb_invoiceId body" "invoices d" ivc]
    by (simp add: findInvoice_def)
  have le: "pb_amount body \<le> total ivc - paidSum d (inv_id ivc)"
    using assms by (rule createPayment_accepted)
  have st: "(if paidSum d (inv_id ivc) + pb_amount body = total ivc then PAID else PARTIAL) =
            (if paidSum d (pb_invoiceId body) + pb_amount body \<ge> total ivc then PAID else PARTIAL)"
  proof (cases "paidSum d (inv_id ivc) + pb_amount body = total ivc")
    case True
    then show ?thesis unfolding key by simp
  next
    case False
    with le have "paidSum d (inv_id ivc) + pb_amount body < total ivc" by simp
    with False show ?thesis unfolding key by simp
  qed
  have "invoices (snd (createPayment now uid body d)) =
          setInvoiceStatus (pb_invoiceId body)
            (if paidSum d (pb_invoiceId body) + pb_amount body \<ge> total ivc then PAID else PARTIAL)
            (invoices d)"
    using createPayment_tables(2)[OF assms(2) le, of now uid] unfolding st .
  then have "findInvoice (snd (createPayment now uid body d)) (pb_invoiceId body) =
          map_option (\<lambda>v. v\<lparr>inv_status := if paidSum d (pb_invoiceId body) + pb_amount body \<ge> total ivc
                                            then PAID else PARTIAL\<rparr>)
            (findInvoice d (pb_invoiceId body))"
    by (simp only: findInvoice_def find_setInvoiceStatus)
  then show ?thesis by (simp only: assms(2) option.map)
qed


text \<open>
  C6, amended. A successful \<^verbatim>\<open>recordPayment\<close> posts exactly one journal entry, already
  APPROVED and stamped, for the payment amount whenever the Cash account (code 1000) and
  the account of the other side exist: Cash debited and Accounts Receivable (1100) credited
  for a RECEIVABLE invoice, Accounts Payable (2000) debited and Cash credited for a PAYABLE
  one. Without a Cash account it posts nothing. Every successful payment, through
  \<^verbatim>\<open>recordPayment\<close> or through \<^verbatim>\<open>createPayment\<close>, sets the invoice to PAID when the payments
  recorded so far plus the new one reach the total, and to PARTIAL otherwise.
\<close>

theorem recordPayment_posts_payment_entry:
  "(\<forall>r ivc. fst (recordPayment now uid i body d) = Inr r \<and> findInvoice d i = Some ivc \<longrightarrow>
      (\<forall>cash other.
         findAccountByCode d ''1000'' = Some cash \<and>
         findAccountByCode d (if inv_type ivc = RECEIVABLE then ''1100'' else ''2000'') = Some other \<longrightarrow>
         (\<exists>e. journalEntries (snd (recordPayment now uid i body d)) = journalEntries d @ [e] \<and>
              je_status e = APPROVED \<and> approvedAt e = Some now \<and>
              map (\<lambda>l. (accountId l, debit l, credit l)) (lines e) =
                (if inv_type ivc = RECEIVABLE
                 then [(acc_id cash, rp_amount body, 0), (acc_id other, 0, rp_amount body)]
                 else [(acc_id other, rp_amount body, 0), (acc_id cash, 0, rp_amount body)]))) \<and>
      (findAccountByCode d ''1000'' = None \<longrightarrow>
         journalEntries (snd (recordPayment now uid i body d)) = journalEntries d) \<and>
      findInvoice (snd (recordPayment now uid i body d)) i =
        Some (ivc\<lparr>inv_status := if paidSum d i + rp_amount body \<ge> total ivc then PAID else PARTIAL\<rparr>)) \<and>
   (\<forall>p ivc. fst (createPayment now uid pbody d) = Inr p \<and>
            findInvoice d (pb_invoiceId pbody) = Some ivc \<longrightarrow>
      findInvoice (snd (createPayment now uid pbody d)) (pb_invoiceId pbody) =
        Some (ivc\<lparr>inv_status := if paidSum d (pb_invoiceId pbody) + pb_amount pbody \<ge> total ivc
                                  then PAID else PARTIAL\<rparr>))"
proof (intro conjI allI impI)
  fix r ivc cash other
  assume ok: "fst (recordPayment now uid i body d) = Inr r \<and> findInvoice d i = Some ivc"
     and ac: "findAccountByCode d ''1000'' = Some cash \<and>
              findAccountByCode d (if inv_type ivc = RECEIVABLE then ''1100'' else ''2000'') = Some other"
  show "\<exists>e. journalEntries (snd (recordPayment now uid i body d)) = journalEntries d @ [e] \<and>
            je_status e = APPROVED \<and> approvedAt e = Some now \<and>
            map (\<lambda>l. (accountId l, debit l, credit l)) (lines e) =
              (if inv_type ivc = RECEIVABLE
               then [(acc_id cash, rp_amount body, 0), (acc_id other, 0, rp_amount body)]
               else [(acc_id other, rp_amount body, 0), (acc_id cash, 0, rp_amount body)])"
    using recordPayment_entry_posted[OF conjunct1[OF ok] conjunct2[OF ok] conjunct1[OF ac] conjunct2[OF ac]] .
next
  fix r ivc
  assume ok: "fst (recordPayment now uid i body d) = Inr r \<and> findInvoice d i = Some ivc"
     and none: "findAccountByCode d ''1000'' = None"
  show "journalEntries (snd (recordPayment now uid i body d)) = journalEntries d"
    using recordPayment_entry_skipped[OF conjunct1[OF ok] conjunct2[OF ok] none] .
next
  fix r ivc
  assume ok: "fst (recordPayment now uid i body d) = Inr r \<and> findInvoice d i = Some ivc"
  show "findInvoice (snd (recordPayment now uid i body d)) i =
          Some (ivc\<lparr>inv_status := if paidSum d i + rp_amount body \<ge> total ivc then PAID else PARTIAL\<rparr>)"
    using recordPayment_status[OF conjunct1[OF ok] conjunct2[OF ok]] .
next
  fix p ivc
  assume ok: "fst (createPayment now uid pbody d) = Inr p \<and>
              findInvoice d (pb_invoiceId pbody) = Some ivc"
  show "findInvoice (snd (createPayment now uid pbody d)) (pb_invoiceId pbody) =
          Some (ivc\<lparr>inv_status := if paidSum d (pb_invoiceId pbody) + pb_amount pbody \<ge> total ivc
                                    then PAID else PARTIAL\<rparr>)"
    using createPayment_status[OF conjunct1[OF ok] conjunct2[OF ok]] .
qed

theorem recordPayment_posts_payment_entry_witness:
  "findInvoice (invoiceDb RECEIVABLE) 20 = Some (sampleInvoice RECEIVABLE) \<and>
   \<not> isl (fst (recordPayment date1 7 20 (payBody 400) (invoiceDb RECEIVABLE))) \<and>
   (\<exists>e. journalEntries (snd (recordPayment date1 7 20 (payBody 400) (invoiceDb RECEIVABLE))) = [e] \<and>
        je_status e = APPROVED \<and> approvedAt e = Some date1 \<and>
        map (\<lambda>l. (accountId l, debit l, credit l)) (lines e) = [(1, 400, 0), (2, 0, 400)]) \<and>
   findInvoice (snd (recordPayment date1 7 20 (payBody 400) (invoiceDb RECEIVABLE))) 20 =
     Some ((sampleInvoice RECEIVABLE)\<lparr>inv_status := PARTIAL\<rparr>) \<and>
   \<not> isl (fst (createPayment date1 7 (paymentBody 1000) (invoiceDb RECEIVABLE))) \<and>
   findInvoice (snd (createPayment date1 7 (paymentBody 1000) (invoiceDb RECEIVABLE))) 20 =
     Some ((sampleInvoice RECEIVABLE)\<lparr>inv_status := PAID\<rparr>)"
proof -
  let ?d = "invoiceDb RECEIVABLE"
  have found: "findInvoice ?d 20 = Some (sampleInvoice RECEIVABLE)"
    by (simp add: findInvoice_def invoiceDb_def sampleInvoice_def)
  have facts: "total (sampleInvoice RECEIVABLE) = 1000" "paidSum ?d 20 = 0"
    "inv_status (sampleInvoice RECEIVABLE) = SENT" "inv_id (sampleInvoice RECEIVABLE) = 20"
    "inv_type (sampleInvoice RECEIVABLE) = RECEIVABLE"
    "rp_amount (payBody 400) = 400" "pb_amount (paymentBody 1000) = 1000"
    "pb_invoiceId (paymentBody 1000) = 20"
    by (simp_all add: sampleInvoice_def paidSum_def invoiceDb_def sample_simps payBody_def
          paymentBody_def)
  have found': "findInvoice ?d (pb_invoiceId (paymentBody 1000)) = Some (sampleInvoice RECEIVABLE)"
    using found by (simp add: facts)
  obtain r where r: "fst (recordPayment date1 7 20 (payBody 400) ?d) = Inr r"
    using recordPayment_tables(3)[OF found, of "payBody 400" date1 7] by (auto simp add: facts)
  obtain p where p: "fst (createPayment date1 7 (paymentBody 1000) ?d) = Inr p"
    using createPayment_tables(3)[of ?d "paymentBody 1000" "sampleInvoice RECEIVABLE" date1 7]
    by (auto simp add: facts found)
  note T = recordPayment_posts_payment_entry [of date1 7 20 "payBody 400" ?d "paymentBody 1000"]
  note R = T[THEN conjunct1, rule_format, OF conjI[OF r found]]
  have posted: "\<exists>e. journalEntries (snd (recordPayment date1 7 20 (payBody 400) ?d)) = [e] \<and>
        je_status e = APPROVED \<and> approvedAt e = Some date1 \<and>
        map (\<lambda>l. (accountId l, debit l, credit l)) (lines e) = [(1, 400, 0), (2, 0, 400)]"
  proof -
    have prem: "findAccountByCode ?d ''1000'' = Some (mkAccount 1 ''1000'' ''Cash'' ASSET 0) \<and>
                findAccountByCode ?d
                  (if inv_type (sampleInvoice RECEIVABLE) = RECEIVABLE then ''1100'' else ''2000'') =
                Some (mkAccount 2 ''1100'' ''Accounts Receivable'' ASSET 0)"
      by (simp add: facts findAccountByCode_def invoiceDb_def sample_simps chart_def mkAccount_def)
    have none: "journalEntries ?d = []"
      by (simp add: invoiceDb_def sample_simps)
    show ?thesis
      using R[THEN conjunct1, rule_format, OF prem]
      by (simp add: facts none mkAccount_def)
  qed
  have st1: "findInvoice (snd (recordPayment date1 7 20 (payBody 400) ?d)) 20 =
               Some ((sampleInvoice RECEIVABLE)\<lparr>inv_status := PARTIAL\<rparr>)"
    using R[THEN conjunct2, THEN conjunct2] by (simp add: facts)
  have st2: "findInvoice (snd (createPayment date1 7 (paymentBody 1000) ?d)) 20 =
               Some ((sampleInvoice RECEIVABLE)\<lparr>inv_status := PAID\<rparr>)"
    using T[THEN conjunct2, rule_format, OF conjI[OF p found']]
    by (simp add: facts)
  from found r p posted st1 st2 show ?thesis by simp
qed

lemma incrementBalance_twice:
  "i \<noteq> j \<Longrightarrow>
   incrementBalance j x (incrementBalance i x as) =
   map (\<lambda>a. if acc_id a = i \<or> acc_id a = j then a\<lparr>balance := balance a + x\<rparr> else a) as"
  by (induction as) (simp_all add: incrementBalance_def)

lemma invoice_subtotal:
  "foldl (\<lambda>s item. s + amount item) 0 (map processItem its) =
   sum_list (map (\<lambda>it. ib_quantity it * ib_unitPrice it) its)"
proof -
  have "foldl (\<lambda>s item. s + amount item) z (map processItem its) =
        z + sum_list (map (\<lambda>it. ib_quantity it * ib_unitPrice it) its)" for z :: rat
    by (induction its arbitrary: z) (simp_all add: processItem_def algebra_simps)
  then show ?thesis by simp
qed

text \<open>
  C7. Creating a RECEIVABLE invoice while the accounts with codes 1100 (Accounts Receivable)
  and 4100 (Service Revenue) exist stores the invoice with its total, the sum of quantity
  times unit price over the items, and appends exactly one journal entry, already APPROVED
  and stamped, with two lines: the total debited to account 1100 and the total credited to
  account 4100. The balances of these two accounts, and of no other, grow by the total.
  Account identifiers are the primary key of the table, hence distinct.
\<close>

theorem createInvoice_receivable_posting:
  assumes "distinct (map acc_id (accounts d))"
      and "ib_type body = RECEIVABLE"
      and "findAccountByCode d ''1100'' = Some ar"
      and "findAccountByCode d ''4100'' = Some revenue"
  shows "\<exists>v e. fst (createInvoice now uid body d) = Inr v \<and>
           total v = sum_list (map (\<lambda>it. ib_quantity it * ib_unitPrice it) (ib_items body)) \<and>
           invoices (snd (createInvoice now uid body d)) = invoices d @ [v] \<and>
           journalEntries (snd (createInvoice now uid body d)) = journalEntries d @ [e] \<and>
           je_status e = APPROVED \<and> approvedAt e = Some now \<and>
           map (\<lambda>l. (accountId l, debit l, credit l)) (lines e) =
             [(acc_id ar, total v, 0), (acc_id revenue, 0, total v)] \<and>
           acc_id ar \<noteq> acc_id revenue \<and>
           accounts (snd (createInvoice now uid body d)) =
             map (\<lambda>a. if acc_id a = acc_id ar \<or> acc_id a = acc_id revenue
                       then a\<lparr>balance := balance a + total v\<rparr> else a) (accounts d)"
proof -
  have a: "ar \<in> set (accounts d)" "code ar = ''1100''"
    using assms(3) find_code_Some[of "''1100''" "accounts d" ar] by (simp_all add: findAccountByCode_def)
  have r: "revenue \<in> set (accounts d)" "code revenue = ''4100''"
    using assms(4) find_code_Some[of "''4100''" "accounts d" revenue]
    by (simp_all add: findAccountByCode_def)
  have "ar \<noteq> revenue" using a(2) r(2) by auto
  then have ne: "acc_id ar \<noteq> acc_id revenue"
    using assms(1) a(1) r(1) by (metis distinct_map inj_onD)
  have look: "find (\<lambda>a. code a = ''1100'') (accounts d) = Some ar"
             "find (\<lambda>a. code a = ''4100'') (accounts d) = Some revenue"
    using assms(3,4) by (simp_all add: findAccountByCode_def)
  show ?thesis
    using assms(2) ne
    by (simp add: createInvoice_def Let_def findAccountByCode_def look createApprovedEntry_def
          auditLogCreate_def incrementBalance_twice invoice_subtotal)
qed


theorem createInvoice_receivable_posting_witness:
  "distinct (map acc_id (accounts emptyDb)) \<and>
   ib_type (invoiceBody RECEIVABLE) = RECEIVABLE \<and>
   findAccountByCode emptyDb ''1100'' = Some (mkAccount 2 ''1100'' ''Accounts Receivable'' ASSET 0) \<and>
   findAccountByCode emptyDb ''4100'' = Some (mkAccount 4 ''4100'' ''Service Revenue'' REVENUE 0) \<and>
   (\<exists>e. journalEntries (snd (createInvoice date0 7 (invoiceBody RECEIVABLE) emptyDb)) = [e] \<and>
        je_status e = APPROVED \<and> approvedAt e = Some date0 \<and>
        map (\<lambda>l. (accountId l, debit l, credit l)) (lines e) = [(2, 1000, 0), (4, 0, 1000)]) \<and>
   map balance (accounts (snd (createInvoice date0 7 (invoiceBody RECEIVABLE) emptyDb))) =
     [0, 1000, 0, 1000, 0]"
proof -
  have h1: "distinct (map acc_id (accounts emptyDb))"
    by (simp add: sample_simps chart_distinct)
  have h2: "ib_type (invoiceBody RECEIVABLE) = RECEIVABLE"
    by (simp add: invoiceBody_def)
  have h3: "findAccountByCode emptyDb ''1100'' = Some (mkAccount 2 ''1100'' ''Accounts Receivable'' ASSET 0)"
    by (simp add: findAccountByCode_def sample_simps chart_def mkAccount_def)
  have h4: "findAccountByCode emptyDb ''4100'' = Some (mkAccount 4 ''4100'' ''Service Revenue'' REVENUE 0)"
    by (simp add: findAccountByCode_def sample_simps chart_def mkAccount_def)
  have sum: "sum_list (map (\<lambda>it. ib_quantity it * ib_unitPrice it) (ib_items (invoiceBody RECEIVABLE))) = 1000"
    by (simp add: invoiceBody_def)
  from createInvoice_receivable_posting [OF h1 h2 h3 h4, of date0 7]
  obtain v e where ve:
      "fst (createInvoice date0 7 (invoiceBody RECEIVABLE) emptyDb) = Inr v \<and>
       total v = sum_list (map (\<lambda>it. ib_quantity it * ib_unitPrice it) (ib_items (invoiceBody RECEIVABLE))) \<and>
       invoices (snd (createInvoice date0 7 (invoiceBody RECEIVABLE) emptyDb)) = invoices emptyDb @ [v] \<and>
       journalEntries (snd (createInvoice date0 7 (invoiceBody RECEIVABLE) emptyDb)) =
         journalEntries emptyDb @ [e] \<and>
       je_status e = APPROVED \<and> approvedAt e = Some date0 \<and>
       map (\<lambda>l. (accountId l, debit l, credit l)) (lines e) =
         [(acc_id (mkAccount 2 ''1100'' ''Accounts Receivable'' ASSET 0), total v, 0),
          (acc_id (mkAccount 4 ''4100'' ''Service Revenue'' REVENUE 0), 0, total v)] \<and>
       acc_id (mkAccount 2 ''1100'' ''Accounts Receivable'' ASSET 0) \<noteq>
         acc_id (mkAccount 4 ''4100'' ''Service Revenue'' REVENUE 0) \<and>
       accounts (snd (createInvoice date0 7 (invoiceBody RECEIVABLE) emptyDb)) =
         map (\<lambda>a. if acc_id a = acc_id (mkAccount 2 ''1100'' ''Accounts Receivable'' ASSET 0) \<or>
                      acc_id a = acc_id (mkAccount 4 ''4100'' ''Service Revenue'' REVENUE 0)
                   then a\<lparr>balance := balance a + total v\<rparr> else a) (accounts emptyDb)"
    by (elim exE) (rule that)
  have tv: "total v = 1000" using ve sum by simp
  have entry: "\<exists>e. journalEntries (snd (createInvoice date0 7 (invoiceBody RECEIVABLE) emptyDb)) = [e] \<and>
        je_status e = APPROVED \<and> approvedAt e = Some date0 \<and>
        map (\<lambda>l. (accountId l, debit l, credit l)) (lines e) = [(2, 1000, 0), (4, 0, 1000)]"
    using ve tv by (simp add: sample_simps mkAccount_def)
  have acc: "accounts (snd (createInvoice date0 7 (invoiceBody RECEIVABLE) emptyDb)) =
         map (\<lambda>a. if acc_id a = acc_id (mkAccount 2 ''1100'' ''Accounts Receivable'' ASSET 0) \<or>
                      acc_id a = acc_id (mkAccount 4 ''4100'' ''Service Revenue'' REVENUE 0)
                   then a\<lparr>balance := balance a + total v\<rparr> else a) (accounts emptyDb)"
    using ve by blast
  have bal: "map balance (accounts (snd (createInvoice date0 7 (invoiceBody RECEIVABLE) emptyDb))) =
               [0, 1000, 0, 1000, 0]"
    unfolding acc tv by (simp add: sample_simps chart_def mkAccount_def)
  from h1 h2 h3 h4 entry bal show ?thesis by simp
qed

section \<open>Reports\<close>

lemma sumBalances_sum: "sumBalances as = sum_list (map balance as)"
proof -
  have "foldl (\<lambda>s a. s + balance a) z as = z + sum_list (map balance as)"
    for z :: rat and as :: "account list"
    by (induction as arbitrary: z) (simp_all add: algebra_simps)
  then show ?thesis by (simp add: sumBalances_def)
qed

lemma filter_active_type:
  "filter (\<lambda>a. acc_type a = t) (filter isActive as) = filter (\<lambda>a. isActive a \<and> acc_type a = t) as"
  by (induction as) auto

text \<open>
  C8, evaluated on the code. With one receivable of 100 and the revenue of 100 that
  produced it, the check of the specification (which counts net income on the right-hand
  side) holds, and \<^verbatim>\<open>getBalanceSheet\<close> answers \<^verbatim>\<open>isBalanced: false\<close>: the code compares
  the assets with liabilities plus equity only.
\<close>

theorem getBalanceSheet_ignores_net_income:
  "activeTotal ASSET revenueDb = 100 \<and> activeTotal LIABILITY revenueDb = 0 \<and>
   activeTotal EQUITY revenueDb = 0 \<and>
   activeTotal REVENUE revenueDb - activeTotal EXPENSE revenueDb = 100 \<and>
   specIsBalanced (activeTotal ASSET revenueDb) (activeTotal LIABILITY revenueDb)
     (activeTotal EQUITY revenueDb)
     (activeTotal REVENUE revenueDb - activeTotal EXPENSE revenueDb) \<and>
   \<not> isBalanced (getBalanceSheet date1 None revenueDb)"
  by (simp add: activeTotal_def revenueDb_def emptyDb_def mkAccount_def specIsBalanced_def
        getBalanceSheet_def Let_def sumBalances_def)


lemma getBalanceSheet_isBalanced:
  "isBalanced (getBalanceSheet now date d) =
   (\<bar>activeTotal ASSET d - (activeTotal LIABILITY d + activeTotal EQUITY d)\<bar> < 1 / 100)"
  by (simp add: getBalanceSheet_def Let_def sumBalances_sum filter_active_type activeTotal_def)





end
